theory Spec2Isabelle
  imports Main "HOL-Library.Word"
begin

unbundle bit_operations_syntax

section \<open>Values exchanged with the service\<close>

text \<open>
  The request body is what \<^verbatim>\<open>bodyParser.json()\<close> leaves in \<^verbatim>\<open>req.body\<close>: a parsed JSON
  value. \<open>JObj\<close> holds the own properties of a parsed object, each key once. The numbers
  of the model are the integers (those a JavaScript number holds exactly). A JavaScript
  value that may be \<^verbatim>\<open>undefined\<close> is a \<open>json option\<close>, with \<open>None\<close> for \<^verbatim>\<open>undefined\<close>.
\<close>

datatype json =
    JNull
  | JBool bool
  | JNum int
  | JStr string
  | JArr "json list"
  | JObj "(string \<times> json) list"

text \<open>
  Property access \<^verbatim>\<open>v.k\<close> on a parsed JSON value: an object yields its own property or
  \<^verbatim>\<open>undefined\<close>; arrays, strings, numbers and booleans have no property of the names
  used here. (The parser, in its default strict mode, only ever hands objects and
  arrays to the routes.)
\<close>

fun getProp :: "json \<Rightarrow> string \<Rightarrow> json option" where
  "getProp (JObj kvs) k = map_of kvs k"
| "getProp _ k = None"

text \<open>
  Errors raised by the storage layer. The library's errors are kept structured (kind of
  the failed cast, offending value, path); \<open>OtherError\<close> is any other failure, with its
  message (connectivity loss, timeout).
\<close>

datatype error =
    CastError string "json option" string
  | ValidationError error
  | DuplicateKeyError string
  | OtherError string

text \<open>
  A stored document as the routes see it: \<^verbatim>\<open>_id\<close> (the 24 hex digits of an ObjectId) and
  \<^verbatim>\<open>name\<close>. \<open>name = None\<close> is a document without the field. The library's version
  counter \<^verbatim>\<open>__v\<close>, which no route reads or changes, is left out.
\<close>

record item =
  oid :: string
  name :: "json option"

record request =
  params_id :: string
  body :: json

text \<open>
  The object literals the routes send, one constructor each:
  \<^verbatim>\<open>{ message, timestamp }\<close>, \<^verbatim>\<open>{ message, item }\<close>, an array of documents,
  \<^verbatim>\<open>{ message }\<close>, \<^verbatim>\<open>{ error: error.message }\<close> (kept as the error whose message text it
  carries), and a raw text body with its content type.
\<close>

datatype payload =
    MessageTimestamp (message: string) (timestamp: int)
  | MessageItem string item
  | Items "item list"
  | Message string
  | ErrorMessage error
  | Text string string

datatype response = Response (status: nat) (payload: payload)

section \<open>The routes of server.js\<close>

text \<open>
  The routes call the \<^verbatim>\<open>Item\<close> model of the mongoose library. The model is a parameter of
  each route: a record of the five operations the source uses, each taking the state of
  the storage and returning what the awaited promise settles to (\<open>Inl\<close> a rejection)
  together with the state the call leaves behind.
  \<^item> \<open>new_Item v\<close> is \<^verbatim>\<open>new Item({ name: v })\<close>;
  \<^item> \<open>save\<close> is \<^verbatim>\<open>item.save()\<close>, yielding the document as \<^verbatim>\<open>res.json\<close> serialises it;
  \<^item> \<open>find'\<close> is \<^verbatim>\<open>Item.find()\<close>;
  \<^item> \<open>findByIdAndUpdate i v\<close> is \<^verbatim>\<open>Item.findByIdAndUpdate(i, { name: v }, { new: true })\<close>;
  \<^item> \<open>findByIdAndDelete i\<close> is \<^verbatim>\<open>Item.findByIdAndDelete(i)\<close>.
\<close>

record ('doc, 'db) Model =
  new_Item :: "json option \<Rightarrow> 'doc"
  save :: "'doc \<Rightarrow> 'db \<Rightarrow> (error + item) \<times> 'db"
  find' :: "'db \<Rightarrow> (error + item list) \<times> 'db"
  findByIdAndUpdate :: "string \<Rightarrow> json option \<Rightarrow> 'db \<Rightarrow> (error + item option) \<times> 'db"
  findByIdAndDelete :: "string \<Rightarrow> 'db \<Rightarrow> (error + item option) \<times> 'db"

text \<open>\<^verbatim>\<open>GET /fast\<close>; \<open>now\<close> is the reading of \<^verbatim>\<open>Date.now()\<close>, in milliseconds.\<close>

definition fast :: "request \<Rightarrow> int \<Rightarrow> response" where
  "fast req now = Response 200 (MessageTimestamp ''Fast API Response'' now)"

text \<open>\<^verbatim>\<open>POST /items\<close>\<close>

definition post_items :: "('doc, 'db) Model \<Rightarrow> request \<Rightarrow> 'db \<Rightarrow> response \<times> 'db" where
  "post_items M req db =
     (let item = new_Item M (getProp (body req) ''name'') in
      case save M item db of
        (Inr saved, db') \<Rightarrow> (Response 201 (MessageItem ''Item created'' saved), db')
      | (Inl error, db') \<Rightarrow> (Response 500 (ErrorMessage error), db'))"

text \<open>\<^verbatim>\<open>GET /items\<close>\<close>

definition get_items :: "('doc, 'db) Model \<Rightarrow> request \<Rightarrow> 'db \<Rightarrow> response \<times> 'db" where
  "get_items M req db =
     (case find' M db of
        (Inr items, db') \<Rightarrow> (Response 200 (Items items), db')
      | (Inl error, db') \<Rightarrow> (Response 500 (ErrorMessage error), db'))"

text \<open>\<^verbatim>\<open>PUT /items/:id\<close>; \<^verbatim>\<open>!item\<close> holds exactly when the promise settled to \<^verbatim>\<open>null\<close>.\<close>

definition put_items :: "('doc, 'db) Model \<Rightarrow> request \<Rightarrow> 'db \<Rightarrow> response \<times> 'db" where
  "put_items M req db =
     (case findByIdAndUpdate M (params_id req) (getProp (body req) ''name'') db of
        (Inr None, db') \<Rightarrow> (Response 404 (Message ''Item not found''), db')
      | (Inr (Some item), db') \<Rightarrow> (Response 200 (MessageItem ''Item updated'' item), db')
      | (Inl error, db') \<Rightarrow> (Response 500 (ErrorMessage error), db'))"

text \<open>\<^verbatim>\<open>DELETE /items/:id\<close>\<close>

definition delete_items :: "('doc, 'db) Model \<Rightarrow> request \<Rightarrow> 'db \<Rightarrow> response \<times> 'db" where
  "delete_items M req db =
     (case findByIdAndDelete M (params_id req) db of
        (Inr None, db') \<Rightarrow> (Response 404 (Message ''Item not found''), db')
      | (Inr (Some item), db') \<Rightarrow> (Response 200 (Message ''Item deleted''), db')
      | (Inl error, db') \<Rightarrow> (Response 500 (ErrorMessage error), db'))"

text \<open>
  \<^verbatim>\<open>GET /metrics\<close>. \<open>register\<close> is the default registry of the metrics library as this
  program leaves it: the source imports the library but creates no metric and never
  asks for the default process metrics to be collected, so the registry holds nothing.
  A registered metric is kept as its rendered text; \<open>metrics\<close> joins the rendered
  metrics with an empty line between them and ends the text with a line feed, as the
  library does since the release whose \<^verbatim>\<open>metrics()\<close> returns a promise, which the source
  awaits. The response carries the registry's content type and the default status 200.
\<close>

definition register :: "string list" where
  "register = []"

definition contentType :: string where
  "contentType = ''text/plain; version=0.0.4; charset=utf-8''"

fun join :: "string \<Rightarrow> string list \<Rightarrow> string" where
  "join sep [] = []"
| "join sep [s] = s"
| "join sep (s # t # ss) = s @ sep @ join sep (t # ss)"

definition metrics :: "string list \<Rightarrow> string" where
  "metrics ms = join [CHR 0x0A, CHR 0x0A] ms @ [CHR 0x0A]"

definition get_metrics :: "request \<Rightarrow> response" where
  "get_metrics req = Response 200 (Text contentType (metrics register))"

section \<open>The Item model over a collection\<close>

text \<open>
  The \<^verbatim>\<open>Item\<close> model that the source obtains from
  \<^verbatim>\<open>mongoose.model("Item", new mongoose.Schema({ name: String }))\<close>, over a reachable
  collection kept as the list of its documents in storage order. The behaviour is that
  of the current versions of the library: an update key whose value is \<^verbatim>\<open>undefined\<close> is
  stripped (so since version 6), and only the 24 hex digit form of an identifier is read
  from a string (older drivers also took any string of 12 bytes).
\<close>

subsection \<open>Identifiers\<close>

text \<open>
  An ObjectId is 12 bytes; \<open>toHexString\<close> prints it as 24 lower-case hex digits, most
  significant first (\<open>nibble w i\<close> is the \<open>i\<close>-th group of four bits, counted from the
  least significant). A new document gets its identifier from the driver's generator when
  it is constructed; the generated value is the parameter \<open>w\<close> of the model below.
\<close>

definition hexdigits :: string where
  "hexdigits = ''0123456789abcdef''"

definition nibble :: "96 word \<Rightarrow> nat \<Rightarrow> nat" where
  "nibble w i = unat (drop_bit (4 * i) w AND 15)"

definition toHexString :: "96 word \<Rightarrow> string" where
  "toHexString w = map (\<lambda>i. hexdigits ! nibble w i) (rev [0..<24])"

definition isHex :: "char \<Rightarrow> bool" where
  "isHex c = (c \<in> set ''0123456789abcdefABCDEF'')"

definition toLowerCase :: "char \<Rightarrow> char" where
  "toLowerCase c =
     (if c = CHR ''A'' then CHR ''a'' else if c = CHR ''B'' then CHR ''b''
      else if c = CHR ''C'' then CHR ''c'' else if c = CHR ''D'' then CHR ''d''
      else if c = CHR ''E'' then CHR ''e'' else if c = CHR ''F'' then CHR ''f'' else c)"

text \<open>
  Casting a route parameter to an ObjectId: a string of 24 hex digits denotes the
  identifier it spells (whatever the case of its letters); any other string is a
  malformed identifier and the cast raises.
\<close>

definition castObjectId :: "string \<Rightarrow> error + string" where
  "castObjectId s =
     (if length s = 24 \<and> list_all isHex s then Inr (map toLowerCase s)
      else Inl (CastError ''ObjectId'' (Some (JStr s)) ''_id''))"

subsection \<open>The schema type String\<close>

text \<open>\<^verbatim>\<open>Number.prototype.toString\<close> on an integer: its decimal digits.\<close>

function digits :: "int \<Rightarrow> string" where
  "digits n =
     (if n < 10 then [''0123456789'' ! nat n]
      else digits (n div 10) @ [''0123456789'' ! nat (n mod 10)])"
  by pat_completeness auto
termination
  by (relation "measure nat") auto

declare digits.simps [simp del]

definition toString :: "int \<Rightarrow> string" where
  "toString n = (if n < 0 then CHR ''-'' # digits (- n) else digits n)"

text \<open>
  The cast of the schema type \<^verbatim>\<open>String\<close>, applied to the value given for path \<open>p\<close>:
  \<^verbatim>\<open>null\<close> and \<^verbatim>\<open>undefined\<close> pass; a string is kept; an object with a non-empty string
  \<^verbatim>\<open>_id\<close> stands for that string; a number or boolean is replaced by its
  \<^verbatim>\<open>toString()\<close>; an array or any other object is refused.
\<close>

fun castString :: "json option \<Rightarrow> string \<Rightarrow> error + json option" where
  "castString None p = Inr None"
| "castString (Some JNull) p = Inr (Some JNull)"
| "castString (Some (JStr s)) p = Inr (Some (JStr s))"
| "castString (Some (JNum n)) p = Inr (Some (JStr (toString n)))"
| "castString (Some (JBool b)) p = Inr (Some (JStr (if b then ''true'' else ''false'')))"
| "castString (Some (JArr xs)) p = Inl (CastError ''string'' (Some (JArr xs)) p)"
| "castString (Some (JObj kvs)) p =
     (case map_of kvs ''_id'' of
        Some (JStr s) \<Rightarrow>
          if s \<noteq> [] then Inr (Some (JStr s))
          else Inl (CastError ''string'' (Some (JObj kvs)) p)
      | _ \<Rightarrow> Inl (CastError ''string'' (Some (JObj kvs)) p))"

subsection \<open>Documents and the collection\<close>

text \<open>
  A constructed document: its fields and, when the cast of a field failed, the pending
  validation error that \<^verbatim>\<open>save()\<close> will reject with.
\<close>

record document =
  doc :: item
  validationError :: "error option"

definition Item_new :: "96 word \<Rightarrow> json option \<Rightarrow> document" where
  "Item_new w v =
     (case castString v ''name'' of
        Inr v' \<Rightarrow> \<lparr>doc = \<lparr>oid = toHexString w, name = v'\<rparr>, validationError = None\<rparr>
      | Inl e \<Rightarrow> \<lparr>doc = \<lparr>oid = toHexString w, name = None\<rparr>,
                  validationError = Some (ValidationError e)\<rparr>)"

text \<open>
  \<^verbatim>\<open>save()\<close> validates, then inserts; the collection's unique index on \<^verbatim>\<open>_id\<close> refuses
  an identifier that is already stored.
\<close>

definition Item_save :: "document \<Rightarrow> item list \<Rightarrow> (error + item) \<times> item list" where
  "Item_save d c =
     (case validationError d of
        Some e \<Rightarrow> (Inl e, c)
      | None \<Rightarrow>
          if oid (doc d) \<in> set (map oid c) then (Inl (DuplicateKeyError (oid (doc d))), c)
          else (Inr (doc d), c @ [doc d]))"

definition Item_find :: "item list \<Rightarrow> (error + item list) \<times> item list" where
  "Item_find c = (Inr c, c)"

fun findOne :: "string \<Rightarrow> item list \<Rightarrow> item option" where
  "findOne x [] = None"
| "findOne x (d # ds) = (if oid d = x then Some d else findOne x ds)"

fun updateOne :: "string \<Rightarrow> json option \<Rightarrow> item list \<Rightarrow> item list" where
  "updateOne x v [] = []"
| "updateOne x v (d # ds) = (if oid d = x then d\<lparr>name := v\<rparr> # ds else d # updateOne x v ds)"

fun deleteOne :: "string \<Rightarrow> item list \<Rightarrow> item list" where
  "deleteOne x [] = []"
| "deleteOne x (d # ds) = (if oid d = x then ds else d # deleteOne x ds)"

text \<open>
  Casting the update \<^verbatim>\<open>{ name: v }\<close>: a key whose value is \<^verbatim>\<open>undefined\<close> is stripped
  (\<open>None\<close>: nothing to set); any other value goes through the cast of the path's type.
\<close>

definition castUpdate :: "json option \<Rightarrow> error + json option option" where
  "castUpdate v =
     (case v of
        None \<Rightarrow> Inr None
      | Some j \<Rightarrow> (case castString (Some j) ''name'' of Inl e \<Rightarrow> Inl e | Inr s \<Rightarrow> Inr (Some s)))"

text \<open>
  \<^verbatim>\<open>findByIdAndUpdate\<close> casts the identifier, then the update, both before the collection
  is asked; with nothing to set it only looks the document up; with \<^verbatim>\<open>new: true\<close> it
  yields the document after the update, or \<^verbatim>\<open>null\<close> when none has the identifier.
\<close>

definition Item_findByIdAndUpdate ::
  "string \<Rightarrow> json option \<Rightarrow> item list \<Rightarrow> (error + item option) \<times> item list" where
  "Item_findByIdAndUpdate i v c =
     (case castObjectId i of
        Inl e \<Rightarrow> (Inl e, c)
      | Inr x \<Rightarrow>
          (case castUpdate v of
             Inl e \<Rightarrow> (Inl e, c)
           | Inr None \<Rightarrow> (Inr (findOne x c), c)
           | Inr (Some s) \<Rightarrow> (Inr (findOne x (updateOne x s c)), updateOne x s c)))"

definition Item_findByIdAndDelete ::
  "string \<Rightarrow> item list \<Rightarrow> (error + item option) \<times> item list" where
  "Item_findByIdAndDelete i c =
     (case castObjectId i of
        Inl e \<Rightarrow> (Inl e, c)
      | Inr x \<Rightarrow> (Inr (findOne x c), deleteOne x c))"

definition Item :: "96 word \<Rightarrow> (document, item list) Model" where
  "Item w =
     \<lparr>new_Item = Item_new w,
      save = Item_save,
      find' = Item_find,
      findByIdAndUpdate = Item_findByIdAndUpdate,
      findByIdAndDelete = Item_findByIdAndDelete\<rparr>"

text \<open>
  A storage that cannot be reached: every operation rejects with the error \<open>e\<close> and
  leaves the state as it was.
\<close>

definition Unreachable :: "error \<Rightarrow> (unit, 'db) Model" where
  "Unreachable e =
     \<lparr>new_Item = (\<lambda>v. ()),
      save = (\<lambda>d db. (Inl e, db)),
      find' = (\<lambda>db. (Inl e, db)),
      findByIdAndUpdate = (\<lambda>i v db. (Inl e, db)),
      findByIdAndDelete = (\<lambda>i db. (Inl e, db))\<rparr>"

section \<open>Facts about identifiers and the collection\<close>

lemma hexdigits_nth:
  "n < 16 \<Longrightarrow> isHex (hexdigits ! n) \<and> toLowerCase (hexdigits ! n) = hexdigits ! n"
  by (auto simp: hexdigits_def isHex_def toLowerCase_def less_Suc_eq numeral_eq_Suc nth_Cons')

lemma nibble_less: "nibble w i < 16"
  unfolding nibble_def
  using word_and_le1 [of "drop_bit (4 * i) w" 15]
  by (simp add: word_le_nat_alt)

lemma length_toHexString: "length (toHexString w) = 24"
  by (simp add: toHexString_def)

text \<open>The identifier printed for a document is read back as itself.\<close>

lemma castObjectId_toHexString: "castObjectId (toHexString w) = Inr (toHexString w)"
proof -
  have "list_all isHex (toHexString w)"
    by (simp add: toHexString_def list_all_iff hexdigits_nth nibble_less)
  moreover have "map toLowerCase (toHexString w) = toHexString w"
    by (simp add: toHexString_def hexdigits_nth nibble_less)
  ultimately show ?thesis
    by (simp add: castObjectId_def length_toHexString)
qed

lemma findOne_None_iff: "findOne x c = None \<longleftrightarrow> x \<notin> set (map oid c)"
  by (induction c) auto

lemma findOne_Some: "findOne x c = Some d \<Longrightarrow> d \<in> set c \<and> oid d = x"
  by (induction c) (auto split: if_splits)

lemma deleteOne_absent: "findOne x c = None \<Longrightarrow> deleteOne x c = c"
  by (induction c) (auto split: if_splits)

lemma updateOne_absent: "findOne x c = None \<Longrightarrow> updateOne x v c = c"
  by (induction c) (auto split: if_splits)

lemma findOne_append_fresh:
  "x \<notin> set (map oid c) \<Longrightarrow> findOne x (c @ [d]) = (if oid d = x then Some d else None)"
  by (induction c) auto

lemma deleteOne_append_fresh:
  "oid d \<notin> set (map oid c) \<Longrightarrow> deleteOne (oid d) (c @ [d]) = c"
  by (induction c) auto

lemmas route_defs = post_items_def get_items_def put_items_def delete_items_def

lemmas Item_defs = Item_def Item_new_def Item_save_def Item_find_def
  Item_findByIdAndUpdate_def Item_findByIdAndDelete_def castUpdate_def

lemma zero_oid: "castObjectId ''000000000000000000000000'' = Inr ''000000000000000000000000''"
  by (simp add: castObjectId_def isHex_def toLowerCase_def)

section \<open>The claims\<close>

text \<open>
  C1. From the empty collection: \<^verbatim>\<open>POST /items {"name":"a"}\<close> answers 201 with the item
  of identifier \<open>X\<close> and name "a", where \<open>X\<close> is the identifier generated for the new
  document; \<^verbatim>\<open>PUT /items/X {"name":"b"}\<close> answers 200 with that item renamed to "b";
  \<^verbatim>\<open>GET /items\<close> lists exactly that item; \<^verbatim>\<open>DELETE /items/X\<close> answers 200; and
  \<^verbatim>\<open>GET /items\<close> then lists nothing. Each equation starts from the collection the previous
  request left.
\<close>

theorem scenario_create_update_list_delete:
  "post_items (Item w) \<lparr>params_id = p, body = JObj [(''name'', JStr ''a'')]\<rparr> [] =
     (Response 201 (MessageItem ''Item created'' \<lparr>oid = toHexString w, name = Some (JStr ''a'')\<rparr>),
      [\<lparr>oid = toHexString w, name = Some (JStr ''a'')\<rparr>])
   \<and> put_items (Item w2) \<lparr>params_id = toHexString w, body = JObj [(''name'', JStr ''b'')]\<rparr>
        [\<lparr>oid = toHexString w, name = Some (JStr ''a'')\<rparr>] =
     (Response 200 (MessageItem ''Item updated'' \<lparr>oid = toHexString w, name = Some (JStr ''b'')\<rparr>),
      [\<lparr>oid = toHexString w, name = Some (JStr ''b'')\<rparr>])
   \<and> get_items (Item w3) r3 [\<lparr>oid = toHexString w, name = Some (JStr ''b'')\<rparr>] =
     (Response 200 (Items [\<lparr>oid = toHexString w, name = Some (JStr ''b'')\<rparr>]),
      [\<lparr>oid = toHexString w, name = Some (JStr ''b'')\<rparr>])
   \<and> delete_items (Item w4) \<lparr>params_id = toHexString w, body = b4\<rparr>
        [\<lparr>oid = toHexString w, name = Some (JStr ''b'')\<rparr>] =
     (Response 200 (Message ''Item deleted''), [])
   \<and> get_items (Item w5) r5 [] = (Response 200 (Items []), [])"
  by (simp add: route_defs Item_defs castObjectId_toHexString)

text \<open>
  C2, as stated, fails: with a well-formed identifier that no document has, a body whose
  name is an array is refused by the cast of the update before the collection is asked,
  and the route answers 500, not 404.
\<close>

theorem put_absent_array_name_counterexample:
  "castObjectId ''000000000000000000000000'' = Inr ''000000000000000000000000''
   \<and> findOne ''000000000000000000000000'' [] = None
   \<and> put_items (Item 0)
        \<lparr>params_id = ''000000000000000000000000'', body = JObj [(''name'', JArr [])]\<rparr> [] =
       (Response 500 (ErrorMessage (CastError ''string'' (Some (JArr [])) ''name'')), [])
   \<and> status (fst (put_items (Item 0)
        \<lparr>params_id = ''000000000000000000000000'', body = JObj [(''name'', JArr [])]\<rparr> [])) \<noteq> 404"
  by (simp add: put_items_def Item_defs zero_oid)

text \<open>
  C2, amended. For a well-formed identifier that no document has, \<^verbatim>\<open>PUT /items/:id\<close>
  answers 404 with the message "Item not found" whenever the schema type accepts the
  body's name (as it does for an absent name, null, a string, a number, a boolean), and
  500 with the cast's error whenever it refuses the name (as it does for an array); either
  way the collection is afterwards what it was before.
\<close>

theorem put_absent_id_not_found:
  assumes "castObjectId (params_id req) = Inr x" and "findOne x c = None"
  shows "(castString (getProp (body req) ''name'') ''name'' = Inr v \<longrightarrow>
            put_items (Item w) req c = (Response 404 (Message ''Item not found''), c))
       \<and> (castString (getProp (body req) ''name'') ''name'' = Inl e \<longrightarrow>
            put_items (Item w) req c = (Response 500 (ErrorMessage e), c))"
  using assms
  by (cases "getProp (body req) ''name''")
     (auto simp: put_items_def Item_defs updateOne_absent split: sum.splits option.splits)

theorem put_absent_id_not_found_witness:
  "castObjectId ''000000000000000000000000'' = Inr ''000000000000000000000000''
   \<and> findOne ''000000000000000000000000'' [\<lparr>oid = ''000000000000000000000001'', name = None\<rparr>] = None
   \<and> castString (Some (JStr ''b'')) ''name'' = Inr (Some (JStr ''b''))
   \<and> put_items (Item 0)
        \<lparr>params_id = ''000000000000000000000000'', body = JObj [(''name'', JStr ''b'')]\<rparr>
        [\<lparr>oid = ''000000000000000000000001'', name = None\<rparr>] =
       (Response 404 (Message ''Item not found''), [\<lparr>oid = ''000000000000000000000001'', name = None\<rparr>])
   \<and> castString (Some (JArr [])) ''name'' = Inl (CastError ''string'' (Some (JArr [])) ''name'')
   \<and> put_items (Item 0)
        \<lparr>params_id = ''000000000000000000000000'', body = JObj [(''name'', JArr [])]\<rparr>
        [\<lparr>oid = ''000000000000000000000001'', name = None\<rparr>] =
       (Response 500 (ErrorMessage (CastError ''string'' (Some (JArr [])) ''name'')),
        [\<lparr>oid = ''000000000000000000000001'', name = None\<rparr>])"
proof -
  have id: "castObjectId ''000000000000000000000000'' = Inr ''000000000000000000000000''"
    by (rule zero_oid)
  have none: "findOne ''000000000000000000000000''
      [\<lparr>oid = ''000000000000000000000001'', name = None\<rparr>] = None"
    by simp
  show ?thesis
    using id none
      put_absent_id_not_found [where req = "\<lparr>params_id = ''000000000000000000000000'',
          body = JObj [(''name'', JStr ''b'')]\<rparr>" and x = "''000000000000000000000000''"
          and c = "[\<lparr>oid = ''000000000000000000000001'', name = None\<rparr>]"
          and v = "Some (JStr ''b'')" and w = 0]
      put_absent_id_not_found [where req = "\<lparr>params_id = ''000000000000000000000000'',
          body = JObj [(''name'', JArr [])]\<rparr>" and x = "''000000000000000000000000''"
          and c = "[\<lparr>oid = ''000000000000000000000001'', name = None\<rparr>]"
          and e = "CastError ''string'' (Some (JArr [])) ''name''" and w = 0]
    by simp
qed

text \<open>
  C3. For a well-formed identifier that no document has, \<^verbatim>\<open>DELETE /items/:id\<close> answers 404
  with the message "Item not found", and the collection is afterwards what it was before.
\<close>

theorem delete_absent_id_not_found:
  assumes "castObjectId (params_id req) = Inr x" and "findOne x c = None"
  shows "delete_items (Item w) req c = (Response 404 (Message ''Item not found''), c)"
  using assms by (simp add: delete_items_def Item_defs deleteOne_absent)

theorem delete_absent_id_not_found_witness:
  "castObjectId ''000000000000000000000000'' = Inr ''000000000000000000000000''
   \<and> findOne ''000000000000000000000000'' [\<lparr>oid = ''000000000000000000000001'', name = None\<rparr>] = None
   \<and> delete_items (Item 0) \<lparr>params_id = ''000000000000000000000000'', body = JObj []\<rparr>
        [\<lparr>oid = ''000000000000000000000001'', name = None\<rparr>] =
       (Response 404 (Message ''Item not found''), [\<lparr>oid = ''000000000000000000000001'', name = None\<rparr>])"
proof -
  have id: "castObjectId ''000000000000000000000000'' = Inr ''000000000000000000000000''"
    by (rule zero_oid)
  have none: "findOne ''000000000000000000000000''
      [\<lparr>oid = ''000000000000000000000001'', name = None\<rparr>] = None"
    by simp
  show ?thesis
    using id none
      delete_absent_id_not_found [where req = "\<lparr>params_id = ''000000000000000000000000'',
          body = JObj []\<rparr>" and x = "''000000000000000000000000''"
          and c = "[\<lparr>oid = ''000000000000000000000001'', name = None\<rparr>]" and w = 0]
    by simp
qed

text \<open>
  C4. On each of the four item routes, for any storage whatever: when the route's one
  storage operation rejects with an error \<open>e\<close>, the route answers 500 with the body
  \<^verbatim>\<open>{ error }\<close> carrying the message of that very error, and the storage is left in the
  state in which that one operation left it (nothing is retried, nothing else is called).
  A malformed identifier is such an error: the cast of the identifier rejects, and
  \<^verbatim>\<open>PUT\<close> and \<^verbatim>\<open>DELETE\<close> answer 500 with the collection untouched.
\<close>

theorem storage_error_answers_500:
  "(save M (new_Item M (getProp (body req) ''name'')) db = (Inl e, db') \<longrightarrow>
      post_items M req db = (Response 500 (ErrorMessage e), db'))
   \<and> (find' M db = (Inl e, db') \<longrightarrow>
      get_items M req db = (Response 500 (ErrorMessage e), db'))
   \<and> (findByIdAndUpdate M (params_id req) (getProp (body req) ''name'') db = (Inl e, db') \<longrightarrow>
      put_items M req db = (Response 500 (ErrorMessage e), db'))
   \<and> (findByIdAndDelete M (params_id req) db = (Inl e, db') \<longrightarrow>
      delete_items M req db = (Response 500 (ErrorMessage e), db'))
   \<and> (castObjectId (params_id req) = Inl e' \<longrightarrow>
      put_items (Item w) req c = (Response 500 (ErrorMessage e'), c)
      \<and> delete_items (Item w) req c = (Response 500 (ErrorMessage e'), c))"
  by (simp add: route_defs Item_defs)

theorem storage_error_answers_500_witness:
  "save (Unreachable (OtherError ''connection lost''))
      (new_Item (Unreachable (OtherError ''connection lost''))
         (getProp (body \<lparr>params_id = ''xyz'', body = JObj [(''name'', JStr ''a'')]\<rparr>) ''name''))
      (7::nat) = (Inl (OtherError ''connection lost''), 7)
   \<and> post_items (Unreachable (OtherError ''connection lost''))
        \<lparr>params_id = ''xyz'', body = JObj [(''name'', JStr ''a'')]\<rparr> (7::nat) =
       (Response 500 (ErrorMessage (OtherError ''connection lost'')), 7)
   \<and> get_items (Unreachable (OtherError ''connection lost''))
        \<lparr>params_id = ''xyz'', body = JObj [(''name'', JStr ''a'')]\<rparr> (7::nat) =
       (Response 500 (ErrorMessage (OtherError ''connection lost'')), 7)
   \<and> put_items (Unreachable (OtherError ''connection lost''))
        \<lparr>params_id = ''xyz'', body = JObj [(''name'', JStr ''a'')]\<rparr> (7::nat) =
       (Response 500 (ErrorMessage (OtherError ''connection lost'')), 7)
   \<and> delete_items (Unreachable (OtherError ''connection lost''))
        \<lparr>params_id = ''xyz'', body = JObj [(''name'', JStr ''a'')]\<rparr> (7::nat) =
       (Response 500 (ErrorMessage (OtherError ''connection lost'')), 7)
   \<and> castObjectId ''xyz'' = Inl (CastError ''ObjectId'' (Some (JStr ''xyz'')) ''_id'')
   \<and> put_items (Item 0) \<lparr>params_id = ''xyz'', body = JObj [(''name'', JStr ''a'')]\<rparr>
        [\<lparr>oid = ''000000000000000000000001'', name = None\<rparr>] =
       (Response 500 (ErrorMessage (CastError ''ObjectId'' (Some (JStr ''xyz'')) ''_id'')),
        [\<lparr>oid = ''000000000000000000000001'', name = None\<rparr>])
   \<and> delete_items (Item 0) \<lparr>params_id = ''xyz'', body = JObj [(''name'', JStr ''a'')]\<rparr>
        [\<lparr>oid = ''000000000000000000000001'', name = None\<rparr>] =
       (Response 500 (ErrorMessage (CastError ''ObjectId'' (Some (JStr ''xyz'')) ''_id'')),
        [\<lparr>oid = ''000000000000000000000001'', name = None\<rparr>])"
proof -
  have raised: "save (Unreachable (OtherError ''connection lost''))
      (new_Item (Unreachable (OtherError ''connection lost''))
         (getProp (body \<lparr>params_id = ''xyz'', body = JObj [(''name'', JStr ''a'')]\<rparr>) ''name''))
      (7::nat) = (Inl (OtherError ''connection lost''), 7)"
    and "find' (Unreachable (OtherError ''connection lost'')) (7::nat) =
      (Inl (OtherError ''connection lost''), 7)"
    and "findByIdAndUpdate (Unreachable (OtherError ''connection lost''))
      (params_id \<lparr>params_id = ''xyz'', body = JObj [(''name'', JStr ''a'')]\<rparr>)
      (getProp (body \<lparr>params_id = ''xyz'', body = JObj [(''name'', JStr ''a'')]\<rparr>) ''name'')
      (7::nat) = (Inl (OtherError ''connection lost''), 7)"
    and "findByIdAndDelete (Unreachable (OtherError ''connection lost''))
      (params_id \<lparr>params_id = ''xyz'', body = JObj [(''name'', JStr ''a'')]\<rparr>) (7::nat) =
      (Inl (OtherError ''connection lost''), 7)"
    by (simp_all add: Unreachable_def)
  have malformed: "castObjectId (params_id \<lparr>params_id = ''xyz'', body = JObj [(''name'', JStr ''a'')]\<rparr>)
      = Inl (CastError ''ObjectId'' (Some (JStr ''xyz'')) ''_id'')"
    by (simp add: castObjectId_def)
  from raised malformed
    storage_error_answers_500 [where M = "Unreachable (OtherError ''connection lost'')"
      and req = "\<lparr>params_id = ''xyz'', body = JObj [(''name'', JStr ''a'')]\<rparr>"
      and db = "7::nat" and db' = "7::nat" and e = "OtherError ''connection lost''"
      and e' = "CastError ''ObjectId'' (Some (JStr ''xyz'')) ''_id''" and w = 0
      and c = "[\<lparr>oid = ''000000000000000000000001'', name = None\<rparr>]"]
  show ?thesis
    by (simp add: Unreachable_def castObjectId_def)
qed

text \<open>
  C5. From any collection: when \<^verbatim>\<open>POST /items\<close> has created an item (it answered 201 with
  the item), \<^verbatim>\<open>DELETE /items/:id\<close> with the identifier of that item answers 200 and leaves
  the collection exactly as it was before the creation; from the empty collection it
  leaves the empty collection.
\<close>

theorem create_then_delete_restores:
  assumes "post_items (Item w) req c = (Response 201 (MessageItem m it), c')"
  shows "delete_items (Item w') \<lparr>params_id = oid it, body = b\<rparr> c' =
           (Response 200 (Message ''Item deleted''), c)"
proof -
  from assms have it: "oid it = toHexString w" and fresh: "oid it \<notin> set (map oid c)"
    and c': "c' = c @ [it]"
    by (auto simp: post_items_def Item_defs Let_def split: sum.splits option.splits if_splits)
  have "castObjectId (oid it) = Inr (oid it)"
    by (simp add: it castObjectId_toHexString)
  moreover have "findOne (oid it) c' = Some it"
    using fresh by (simp add: c' findOne_append_fresh)
  moreover have "deleteOne (oid it) c' = c"
    using fresh by (simp add: c' deleteOne_append_fresh)
  ultimately show ?thesis
    by (simp add: delete_items_def Item_defs)
qed

theorem create_then_delete_restores_witness:
  "post_items (Item 0) \<lparr>params_id = [], body = JObj [(''name'', JStr ''widget'')]\<rparr> [] =
     (Response 201 (MessageItem ''Item created''
        \<lparr>oid = toHexString 0, name = Some (JStr ''widget'')\<rparr>),
      [\<lparr>oid = toHexString 0, name = Some (JStr ''widget'')\<rparr>])
   \<and> delete_items (Item 1) \<lparr>params_id = toHexString 0, body = JObj []\<rparr>
        [\<lparr>oid = toHexString 0, name = Some (JStr ''widget'')\<rparr>] =
       (Response 200 (Message ''Item deleted''), [])"
proof -
  have created:
    "post_items (Item 0) \<lparr>params_id = [], body = JObj [(''name'', JStr ''widget'')]\<rparr> [] =
       (Response 201 (MessageItem ''Item created''
          \<lparr>oid = toHexString 0, name = Some (JStr ''widget'')\<rparr>),
        [\<lparr>oid = toHexString 0, name = Some (JStr ''widget'')\<rparr>])"
    by (simp add: post_items_def Item_defs)
  from created create_then_delete_restores [OF created, where w' = 1 and b = "JObj []"]
  show ?thesis
    by simp
qed

text \<open>
  C6, as stated, fails: \<^verbatim>\<open>Date.now()\<close> counts whole milliseconds, and two successive
  calls served within the same millisecond read the same value, so the later timestamp
  is not strictly greater than the earlier one.
\<close>

theorem fast_same_millisecond_counterexample:
  "\<not> timestamp (payload (fast \<lparr>params_id = [], body = JObj []\<rparr> 1700000000000))
       < timestamp (payload (fast \<lparr>params_id = [], body = JObj []\<rparr> 1700000000000))"
  by (simp add: fast_def)

text \<open>
  C6, amended. Every call to \<^verbatim>\<open>GET /fast\<close> answers 200 with \<^verbatim>\<open>{ message, timestamp }\<close>,
  the timestamp being the number read from the clock at the call; of two calls, the later
  one carries a strictly greater timestamp exactly when the clock reading has advanced
  between them.
\<close>

theorem fast_timestamp_is_clock_reading:
  "fast req now = Response 200 (MessageTimestamp ''Fast API Response'' now)
   \<and> (timestamp (payload (fast req1 t1)) < timestamp (payload (fast req2 t2))) = (t1 < t2)"
  by (simp add: fast_def)

text \<open>
  C7, as stated, fails: the schema declares \<^verbatim>\<open>name: String\<close>, and a number given as name
  is stored as its decimal text, not as the number.
\<close>

theorem post_number_name_counterexample:
  "map name (snd (post_items (Item 0) \<lparr>params_id = [], body = JObj [(''name'', JNum 42)]\<rparr> []))
     = [Some (JStr ''42'')]
   \<and> Some (JStr ''42'') \<noteq> Some (JNum 42)"
  by (simp add: post_items_def Item_defs toString_def digits.simps)

text \<open>
  C7, amended. When the name of the request body is a string, null or absent, and the
  identifier generated for the new document is not yet stored, \<^verbatim>\<open>POST /items\<close> answers 201
  and stores that very value as the name of the new document.
\<close>

theorem post_stores_text_name_as_is:
  assumes "getProp (body req) ''name'' = v"
    and "v = None \<or> v = Some JNull \<or> v = Some (JStr s)"
    and "toHexString w \<notin> set (map oid c)"
  shows "post_items (Item w) req c =
           (Response 201 (MessageItem ''Item created'' \<lparr>oid = toHexString w, name = v\<rparr>),
            c @ [\<lparr>oid = toHexString w, name = v\<rparr>])"
  using assms by (auto simp: post_items_def Item_defs)

theorem post_stores_text_name_as_is_witness:
  "getProp (body \<lparr>params_id = [], body = JObj [(''name'', JNull)]\<rparr>) ''name'' = Some JNull
   \<and> toHexString 0 \<notin> set (map oid [])
   \<and> post_items (Item 0) \<lparr>params_id = [], body = JObj [(''name'', JNull)]\<rparr> [] =
       (Response 201 (MessageItem ''Item created'' \<lparr>oid = toHexString 0, name = Some JNull\<rparr>),
        [\<lparr>oid = toHexString 0, name = Some JNull\<rparr>])"
proof -
  have v: "getProp (body \<lparr>params_id = [], body = JObj [(''name'', JNull)]\<rparr>) ''name'' = Some JNull"
    by simp
  have kind: "Some JNull = None \<or> Some JNull = Some JNull \<or> Some JNull = Some (JStr [])"
    by simp
  have fresh: "toHexString 0 \<notin> set (map oid [])"
    by simp
  from v fresh post_stores_text_name_as_is [OF v kind fresh]
  show ?thesis
    by simp
qed

text \<open>
  C8 fails on the code: the default registry holds no metric, since the program neither
  creates one nor has the default process metrics collected. Every call to
  \<^verbatim>\<open>GET /metrics\<close> answers 200 with a body that is a single line feed: no metric, and no
  process metric, is exposed.
\<close>

theorem metrics_body_holds_no_metric:
  "get_metrics req = Response 200 (Text contentType [CHR 0x0A])"
  by (simp add: get_metrics_def metrics_def register_def)

text \<open>
  C9. For an existing item addressed by its identifier, \<^verbatim>\<open>PUT /items/:id\<close> with a body
  that has no name answers 200 with the item as it is stored, and the whole collection
  (the item's name, and every other item) is afterwards what it was before.
\<close>

theorem put_without_name_changes_nothing:
  assumes "castObjectId (params_id req) = Inr x" and "findOne x c = Some d"
    and "getProp (body req) ''name'' = None"
  shows "put_items (Item w) req c = (Response 200 (MessageItem ''Item updated'' d), c)"
  using assms by (simp add: put_items_def Item_defs)

theorem put_without_name_changes_nothing_witness:
  "castObjectId ''000000000000000000000001'' = Inr ''000000000000000000000001''
   \<and> findOne ''000000000000000000000001''
       [\<lparr>oid = ''000000000000000000000000'', name = Some (JStr ''x'')\<rparr>,
        \<lparr>oid = ''000000000000000000000001'', name = Some (JStr ''y'')\<rparr>] =
       Some \<lparr>oid = ''000000000000000000000001'', name = Some (JStr ''y'')\<rparr>
   \<and> getProp (JObj [(''colour'', JStr ''red'')]) ''name'' = None
   \<and> put_items (Item 0)
        \<lparr>params_id = ''000000000000000000000001'', body = JObj [(''colour'', JStr ''red'')]\<rparr>
        [\<lparr>oid = ''000000000000000000000000'', name = Some (JStr ''x'')\<rparr>,
         \<lparr>oid = ''000000000000000000000001'', name = Some (JStr ''y'')\<rparr>] =
       (Response 200 (MessageItem ''Item updated''
          \<lparr>oid = ''000000000000000000000001'', name = Some (JStr ''y'')\<rparr>),
        [\<lparr>oid = ''000000000000000000000000'', name = Some (JStr ''x'')\<rparr>,
         \<lparr>oid = ''000000000000000000000001'', name = Some (JStr ''y'')\<rparr>])"
proof -
  have id: "castObjectId (params_id \<lparr>params_id = ''000000000000000000000001'',
      body = JObj [(''colour'', JStr ''red'')]\<rparr>) = Inr ''000000000000000000000001''"
    by (simp add: castObjectId_def isHex_def toLowerCase_def)
  have found: "findOne ''000000000000000000000001''
       [\<lparr>oid = ''000000000000000000000000'', name = Some (JStr ''x'')\<rparr>,
        \<lparr>oid = ''000000000000000000000001'', name = Some (JStr ''y'')\<rparr>] =
       Some \<lparr>oid = ''000000000000000000000001'', name = Some (JStr ''y'')\<rparr>"
    by simp
  have absent: "getProp (body \<lparr>params_id = ''000000000000000000000001'',
      body = JObj [(''colour'', JStr ''red'')]\<rparr>) ''name'' = None"
    by simp
  from id found absent put_without_name_changes_nothing [OF id found absent, where w = 0]
  show ?thesis
    by simp
qed

text \<open>
  C10. What \<^verbatim>\<open>POST /items\<close> stores and answers depends on the request body through its
  name only. For any storage, two requests whose bodies agree on name lead, from the
  same state and with the same generated identifier, to the same answer and the same
  stored state. Over a collection, with two different generated identifiers that are both
  new to it, the two answers have the same status and the two resulting collections hold
  the same names, document by document. No other field of the body reaches the storage:
  a stored document has an identifier and a name, nothing else.
\<close>

theorem post_depends_on_name_only:
  assumes "getProp (body r1) ''name'' = getProp (body r2) ''name''"
  shows "post_items M r1 db = post_items M r2 db
       \<and> (toHexString w1 \<notin> set (map oid c) \<and> toHexString w2 \<notin> set (map oid c) \<longrightarrow>
            status (fst (post_items (Item w1) r1 c)) = status (fst (post_items (Item w2) r2 c))
          \<and> map name (snd (post_items (Item w1) r1 c)) = map name (snd (post_items (Item w2) r2 c)))"
  using assms
  by (cases "castString (getProp (body r2) ''name'') ''name''")
     (simp_all add: post_items_def Item_defs)

theorem post_depends_on_name_only_witness:
  "getProp (body \<lparr>params_id = [], body = JObj [(''name'', JStr ''a''), (''admin'', JBool True)]\<rparr>) ''name''
     = getProp (body \<lparr>params_id = ''7'', body = JObj [(''name'', JStr ''a'')]\<rparr>) ''name''
   \<and> toHexString 1 \<notin> set (map oid [])
   \<and> toHexString 2 \<notin> set (map oid [])
   \<and> post_items (Item 0)
        \<lparr>params_id = [], body = JObj [(''name'', JStr ''a''), (''admin'', JBool True)]\<rparr> [] =
      post_items (Item 0) \<lparr>params_id = ''7'', body = JObj [(''name'', JStr ''a'')]\<rparr> []
   \<and> snd (post_items (Item 0)
        \<lparr>params_id = [], body = JObj [(''name'', JStr ''a''), (''admin'', JBool True)]\<rparr> []) =
      [\<lparr>oid = toHexString 0, name = Some (JStr ''a'')\<rparr>]
   \<and> status (fst (post_items (Item 1)
        \<lparr>params_id = [], body = JObj [(''name'', JStr ''a''), (''admin'', JBool True)]\<rparr> [])) =
      status (fst (post_items (Item 2) \<lparr>params_id = ''7'', body = JObj [(''name'', JStr ''a'')]\<rparr> []))
   \<and> map name (snd (post_items (Item 1)
        \<lparr>params_id = [], body = JObj [(''name'', JStr ''a''), (''admin'', JBool True)]\<rparr> [])) =
      map name (snd (post_items (Item 2) \<lparr>params_id = ''7'', body = JObj [(''name'', JStr ''a'')]\<rparr> []))"
proof -
  have same: "getProp (body \<lparr>params_id = [], body = JObj [(''name'', JStr ''a''), (''admin'', JBool True)]\<rparr>) ''name''
     = getProp (body \<lparr>params_id = ''7'', body = JObj [(''name'', JStr ''a'')]\<rparr>) ''name''"
    by simp
  have stored: "snd (post_items (Item 0) \<lparr>params_id = ''7'', body = JObj [(''name'', JStr ''a'')]\<rparr> []) =
      [\<lparr>oid = toHexString 0, name = Some (JStr ''a'')\<rparr>]"
    by (simp add: post_items_def Item_defs)
  have fresh: "toHexString 1 \<notin> set (map oid [])" "toHexString 2 \<notin> set (map oid [])"
    by simp_all
  from same stored fresh
    post_depends_on_name_only [OF same, where M = "Item 0" and db = "[]" and c = "[]"
      and ?w1.0 = 1 and ?w2.0 = 2]
  show ?thesis
    by simp
qed

end
